theory Spec2Isabelle
  imports Complex_Main
begin

section \<open>Documents of the two collections\<close>

text \<open>
  The controller \<^verbatim>\<open>src/controllers/bookController.js\<close> works on two collections, Book and
  Borrow. Object ids are natural numbers, dates are milliseconds since the epoch
  (\<^verbatim>\<open>Date.getTime()\<close>), a field that may hold \<^verbatim>\<open>null\<close> is an option, and the copy counters
  are integers.
\<close>

datatype status = Available | Borrowed

record book =
  book_id :: nat
  title :: string
  author :: string
  category :: string
  isbn :: string
  description :: string
  bookImage :: "string option"
  availableCopies :: int
  totalCopies :: int
  status :: status
  borrower :: "nat option"
  borrowedAt :: "int option"
  dueDate :: "int option"

record borrow =
  borrow_id :: nat
  borrow_user :: nat
  borrow_book :: nat
  borrow_borrowedAt :: int
  borrow_dueDate :: int
  returnedAt :: "int option"
  fine :: int

text \<open>
  The store holds both collections in insertion order, and the source of fresh object ids.
\<close>

record store =
  books :: "book list"
  borrows :: "borrow list"
  nextId :: nat

definition empty_store :: store where
  "empty_store = \<lparr>books = [], borrows = [], nextId = 0\<rparr>"

section \<open>Requests and responses\<close>

text \<open>
  \<^verbatim>\<open>req.body\<close> of Add and Update, as a JSON body: a text field is a string or absent
  (\<^verbatim>\<open>undefined\<close>), a counter is an integer or absent.
\<close>

record req_body =
  r_title :: "string option"
  r_author :: "string option"
  r_category :: "string option"
  r_isbn :: "string option"
  r_description :: "string option"
  r_availableCopies :: "int option"
  r_totalCopies :: "int option"

text \<open>
  \<^verbatim>\<open>req.params.id\<close>: the path parameter either is a well-formed object id or is not;
  \<^verbatim>\<open>mongoose.Types.ObjectId.isValid\<close> tells the two apart, and the cast that \<^verbatim>\<open>findById\<close>
  performs throws a \<^verbatim>\<open>CastError\<close> on the second kind.
\<close>

datatype ident = ObjectId nat | Malformed string

fun isValid :: "ident \<Rightarrow> bool" where
  "isValid (ObjectId n) = True"
| "isValid (Malformed s) = False"

text \<open>
  The exceptions that reach a handler's \<^verbatim>\<open>catch\<close>; the body sent is their message: a failed
  cast of an id, a duplicate key, a document that fails validation on \<^verbatim>\<open>save\<close>, a query the
  store rejects, and a \<^verbatim>\<open>TypeError\<close> of the handler's own code.
\<close>

datatype exn = CastError | DuplicateKey | ValidationFailed | QueryError | TypeError

record history_entry =
  h_id :: nat
  h_bookId :: "nat \<times> string"
  h_title :: string
  h_author :: string
  h_category :: string
  h_status :: string
  h_borrowedAt :: int
  h_dueDate :: int
  h_returnedAt :: "int option"
  h_fine :: int

datatype body =
    Msg string
  | ErrMsg exn
  | BookDoc book
  | BorrowedBody string string int int
  | ReturnedBody string string
  | PageBody nat int "int option" "book list"
  | HistoryBody "history_entry list"

type_synonym response = "nat \<times> body"

text \<open>The error taxonomy of the specification, as the responses the handlers send.\<close>

definition ValidationError :: response where
  "ValidationError = (400, Msg ''All fields except image and description are required'')"

definition InvalidIdentifier :: response where
  "InvalidIdentifier = (400, Msg ''Invalid Book ID'')"

definition NotFound :: response where
  "NotFound = (404, Msg ''Book not found'')"

definition Unavailable :: response where
  "Unavailable = (400, Msg ''Book is currently unavailable'')"

definition AlreadyBorrowed :: response where
  "AlreadyBorrowed = (400, Msg ''You have already borrowed this book'')"

definition NotBorrowedByUser :: response where
  "NotBorrowedByUser = (400, Msg ''You did not borrow this book'')"

definition StoreError :: "exn \<Rightarrow> response" where
  "StoreError e = (500, ErrMsg e)"

section \<open>JavaScript operators on request fields\<close>

text \<open>Truthiness: \<^verbatim>\<open>undefined\<close>, the empty string and \<^verbatim>\<open>0\<close> are falsy.\<close>

definition truthy_str :: "string option \<Rightarrow> bool" where
  "truthy_str v = (case v of None \<Rightarrow> False | Some s \<Rightarrow> s \<noteq> [])"

definition truthy_num :: "int option \<Rightarrow> bool" where
  "truthy_num v = (case v of None \<Rightarrow> False | Some n \<Rightarrow> n \<noteq> 0)"

text \<open>\<^verbatim>\<open>v || d\<close> on strings and on numbers.\<close>

definition or_str :: "string option \<Rightarrow> string \<Rightarrow> string" where
  "or_str v d = (case v of None \<Rightarrow> d | Some s \<Rightarrow> if s = [] then d else s)"

definition or_num :: "int option \<Rightarrow> int \<Rightarrow> int" where
  "or_num v d = (case v of None \<Rightarrow> d | Some n \<Rightarrow> if n = 0 then d else n)"

text \<open>\<^verbatim>\<open>v ?? d\<close>, and \<^verbatim>\<open>v !== undefined ? v : d\<close>: only an absent value gives way.\<close>

definition nullish :: "'a option \<Rightarrow> 'a \<Rightarrow> 'a" where
  "nullish v d = (case v of None \<Rightarrow> d | Some x \<Rightarrow> x)"

section \<open>Numbers and dates\<close>

text \<open>
  The counters and the dates are JavaScript Numbers, and the code adds, subtracts and
  divides them as doubles. The model computes with integers. The two agree on safe integers
  (\<^verbatim>\<open>Number.isSafeInteger\<close>, a magnitude below \<open>2^53\<close>); beyond them the code rounds to the
  nearest double where the model does not.
\<close>

definition safe_integer :: "int \<Rightarrow> bool" where
  "safe_integer n = (\<bar>n\<bar> < 2 ^ 53)"

text \<open>
  The time value of a valid \<^verbatim>\<open>Date\<close> is at most \<open>8.64e15\<close> in magnitude; \<^verbatim>\<open>new Date(t)\<close> of any
  other \<open>t\<close> is an invalid date. A reading of the clock is a valid time value.
\<close>

definition maxTime :: int where
  "maxTime = 8640000000000000"

definition valid_time :: "int \<Rightarrow> bool" where
  "valid_time t = (\<bar>t\<bar> \<le> maxTime)"

section \<open>Store operations\<close>

text \<open>
  \<^verbatim>\<open>Book.findById\<close>: a malformed id throws, a well-formed one gives the document or \<^verbatim>\<open>null\<close>.
\<close>

fun findById :: "store \<Rightarrow> ident \<Rightarrow> exn + book option" where
  "findById st (Malformed s) = Inl CastError"
| "findById st (ObjectId n) = Inr (find (\<lambda>b. book_id b = n) (books st))"

text \<open>
  Modelled from the spec: the Book schema (\<^verbatim>\<open>models/Book.js\<close> is not among the sources).
  The specification gives \<^verbatim>\<open>isbn\<close> as unique, so saving a document whose \<^verbatim>\<open>isbn\<close> another
  document holds fails with a duplicate-key error.
\<close>

definition isbn_taken :: "store \<Rightarrow> book \<Rightarrow> bool" where
  "isbn_taken st b = (\<exists>c \<in> set (books st). isbn c = isbn b \<and> book_id c \<noteq> book_id b)"

text \<open>\<^verbatim>\<open>doc.save()\<close> of a document read from the store writes it back under its id.\<close>

definition put_book :: "book \<Rightarrow> book list \<Rightarrow> book list" where
  "put_book b bs = map (\<lambda>c. if book_id c = book_id b then b else c) bs"

definition put_borrow :: "borrow \<Rightarrow> borrow list \<Rightarrow> borrow list" where
  "put_borrow r rs = map (\<lambda>c. if borrow_id c = borrow_id r then r else c) rs"

section \<open>Catalogue handlers\<close>

text \<open>
  Modelled from the spec: the Book schema's defaults for the fields that \<^verbatim>\<open>addBook\<close> does
  not set (\<^verbatim>\<open>models/Book.js\<close> is not among the sources): a new book is Available, with no
  borrower and no dates.
\<close>

definition new_book :: "nat \<Rightarrow> string \<Rightarrow> string \<Rightarrow> string \<Rightarrow> string \<Rightarrow> string \<Rightarrow> int \<Rightarrow> int \<Rightarrow> book" where
  "new_book i t a c n d av tot =
     \<lparr>book_id = i, title = t, author = a, category = c, isbn = n, description = d,
      bookImage = None, availableCopies = av, totalCopies = tot,
      status = Available, borrower = None, borrowedAt = None, dueDate = None\<rparr>"

text \<open>
  \<^verbatim>\<open>addBook\<close> (lines 10-46). The last argument is \<^verbatim>\<open>req.file.filename\<close> when a cover image
  was uploaded. Past the test of line 13 the five required fields are present, and
  \<open>nullish\<close> reads their values. The removal of the uploaded file on failure touches the
  file system only and is left out.
\<close>

definition addBook :: "store \<Rightarrow> req_body \<Rightarrow> string option \<Rightarrow> response \<times> store" where
  "addBook st b file =
     (if \<not> truthy_str (r_title b) \<or> \<not> truthy_str (r_author b) \<or> \<not> truthy_str (r_category b)
         \<or> \<not> truthy_str (r_isbn b) \<or> \<not> truthy_num (r_totalCopies b)
      then (ValidationError, st)
      else
        let tot = nullish (r_totalCopies b) 0;
            bookData = new_book (nextId st)
                         (nullish (r_title b) []) (nullish (r_author b) [])
                         (nullish (r_category b) []) (nullish (r_isbn b) [])
                         (or_str (r_description b) [])
                         (or_num (r_availableCopies b) tot) tot;
            newBook = (case file of None \<Rightarrow> bookData
                       | Some f \<Rightarrow> bookData\<lparr>bookImage := Some (''/uploads/'' @ f)\<rparr>)
        in if isbn_taken st newBook then (StoreError DuplicateKey, st)
           else ((201, BookDoc newBook),
                 st\<lparr>books := books st @ [newBook], nextId := Suc (nextId st)\<rparr>))"

text \<open>\<^verbatim>\<open>getBookById\<close> (lines 63-78): the only handler that checks the id first.\<close>

definition getBookById :: "store \<Rightarrow> ident \<Rightarrow> response \<times> store" where
  "getBookById st i =
     (if \<not> isValid i then (InvalidIdentifier, st)
      else case findById st i of
             Inl e \<Rightarrow> (StoreError e, st)
           | Inr None \<Rightarrow> (NotFound, st)
           | Inr (Some book) \<Rightarrow> ((200, BookDoc book), st))"

text \<open>\<^verbatim>\<open>updateBook\<close> (lines 83-107).\<close>

definition update_fields :: "book \<Rightarrow> req_body \<Rightarrow> string option \<Rightarrow> book" where
  "update_fields book b file =
     (let book1 = book\<lparr>title := or_str (r_title b) (title book),
                       author := or_str (r_author b) (author book),
                       category := or_str (r_category b) (category book),
                       isbn := or_str (r_isbn b) (isbn book),
                       description := nullish (r_description b) (description book),
                       availableCopies := nullish (r_availableCopies b) (availableCopies book),
                       totalCopies := nullish (r_totalCopies b) (totalCopies book)\<rparr>
      in case file of None \<Rightarrow> book1
         | Some f \<Rightarrow> book1\<lparr>bookImage := Some (''/uploads/'' @ f)\<rparr>)"

definition updateBook :: "store \<Rightarrow> ident \<Rightarrow> req_body \<Rightarrow> string option \<Rightarrow> response \<times> store" where
  "updateBook st i b file =
     (case findById st i of
        Inl e \<Rightarrow> (StoreError e, st)
      | Inr None \<Rightarrow> (NotFound, st)
      | Inr (Some book) \<Rightarrow>
          let updatedBook = update_fields book b file
          in if isbn_taken st updatedBook then (StoreError DuplicateKey, st)
             else ((200, BookDoc updatedBook), st\<lparr>books := put_book updatedBook (books st)\<rparr>))"

text \<open>\<^verbatim>\<open>deleteBook\<close> (lines 112-122): the Borrow collection is not touched.\<close>

definition deleteBook :: "store \<Rightarrow> ident \<Rightarrow> response \<times> store" where
  "deleteBook st i =
     (case findById st i of
        Inl e \<Rightarrow> (StoreError e, st)
      | Inr None \<Rightarrow> (NotFound, st)
      | Inr (Some book) \<Rightarrow>
          ((200, Msg ''Book deleted successfully''),
           st\<lparr>books := filter (\<lambda>c. book_id c \<noteq> book_id book) (books st)\<rparr>))"

section \<open>Borrow and return\<close>

text \<open>Seven days and one day, in milliseconds.\<close>

definition loanPeriod :: int where
  "loanPeriod = 7 * 24 * 60 * 60 * 1000"

definition msPerDay :: int where
  "msPerDay = 1000 * 60 * 60 * 24"

text \<open>
  Modelled from the spec: the Borrow schema's defaults (\<^verbatim>\<open>models/Borrow.js\<close> is not among
  the sources): a new Borrow record has \<^verbatim>\<open>returnedAt\<close> unset and fine 0.
\<close>

definition new_borrow :: "nat \<Rightarrow> nat \<Rightarrow> nat \<Rightarrow> int \<Rightarrow> int \<Rightarrow> borrow" where
  "new_borrow i u bk since due =
     \<lparr>borrow_id = i, borrow_user = u, borrow_book = bk, borrow_borrowedAt = since,
      borrow_dueDate = due, returnedAt = None, fine = 0\<rparr>"

text \<open>
  \<^verbatim>\<open>borrowBook\<close> (lines 127-171). The handler reads the clock twice: \<^verbatim>\<open>new Date()\<close> for
  \<^verbatim>\<open>borrowedAt\<close> and \<^verbatim>\<open>Date.now()\<close> for \<^verbatim>\<open>dueDate\<close>; \<open>now\<close> and \<open>now'\<close> are the two readings.
  The Borrow record takes the two dates just written on the book. When seven days after
  \<open>now'\<close> is no valid time value, \<^verbatim>\<open>dueDate\<close> is an invalid date, which neither document
  accepts (the specification gives the \<^verbatim>\<open>dueDate\<close> of a Borrow record as required): both
  \<^verbatim>\<open>save\<close> calls fail and the handler answers 500.
\<close>

definition borrowBook :: "store \<Rightarrow> nat \<Rightarrow> ident \<Rightarrow> int \<Rightarrow> int \<Rightarrow> response \<times> store" where
  "borrowBook st uid i now now' =
     (case findById st i of
        Inl e \<Rightarrow> (StoreError e, st)
      | Inr None \<Rightarrow> (NotFound, st)
      | Inr (Some book) \<Rightarrow>
          if status book = Borrowed \<or> availableCopies book = 0 then (Unavailable, st)
          else if borrower book = Some uid then (AlreadyBorrowed, st)
          else if valid_time (now' + loanPeriod) then
            let book' = book\<lparr>status := Borrowed, borrower := Some uid,
                              borrowedAt := Some now, dueDate := Some (now' + loanPeriod),
                              availableCopies := availableCopies book - 1\<rparr>;
                borrowRecord = new_borrow (nextId st) uid (book_id book) now (now' + loanPeriod)
            in ((200, BorrowedBody ''Book borrowed successfully'' (title book') now (now' + loanPeriod)),
                st\<lparr>books := put_book book' (books st),
                   borrows := borrows st @ [borrowRecord],
                   nextId := Suc (nextId st)\<rparr>)
          else (StoreError ValidationFailed, st))"

text \<open>
  The late fee of \<^verbatim>\<open>returnBook\<close> (lines 185-191): \<^verbatim>\<open>Math.ceil\<close> of the quotient of the
  lateness in milliseconds by one day, times 5; nothing when there is no due date or the
  return is not after it. The code subtracts and divides doubles. For two valid time values
  whose difference is a safe integer the subtraction is exact and the quotient by
  \<open>86400000\<close> is never rounded onto an integer, so the ceiling of the exact quotient is what
  the code computes; a lateness of \<open>2^53\<close> milliseconds or more is rounded before it is
  divided, and the code's fee can then differ from the one here.
\<close>

definition daysLate :: "int \<Rightarrow> int \<Rightarrow> int" where
  "daysLate currentDate due = \<lceil>real_of_int (currentDate - due) / real_of_int msPerDay\<rceil>"

definition late_fine :: "int option \<Rightarrow> int \<Rightarrow> int" where
  "late_fine due currentDate =
     (case due of
        None \<Rightarrow> 0
      | Some d \<Rightarrow> if currentDate > d then daysLate currentDate d * 5 else 0)"

text \<open>Decimal digits of a number, as a template literal prints it.\<close>

fun show_nat :: "nat \<Rightarrow> string" where
  "show_nat n = (if n < 10 then [char_of (48 + n)]
                 else show_nat (n div 10) @ [char_of (48 + n mod 10)])"

definition show_int :: "int \<Rightarrow> string" where
  "show_int k = (if k < 0 then CHR ''-'' # show_nat (nat (- k)) else show_nat (nat k))"

text \<open>The rupee sign U+20B9, in UTF-8.\<close>

definition rupee :: string where
  "rupee = [CHR 0xE2, CHR 0x82, CHR 0xB9]"

definition fine_message :: "int \<Rightarrow> string" where
  "fine_message f =
     (if f > 0 then rupee @ show_int f @ '' has been applied for late return''
      else ''No fine applied'')"

text \<open>
  \<^verbatim>\<open>Borrow.findOne({book, user, returnedAt: null})\<close>: the first open record of the pair.
\<close>

definition open_record :: "nat \<Rightarrow> nat \<Rightarrow> borrow \<Rightarrow> bool" where
  "open_record bk uid r = (borrow_book r = bk \<and> borrow_user r = uid \<and> returnedAt r = None)"

text \<open>\<^verbatim>\<open>returnBook\<close> (lines 173-222).\<close>

definition returnBook :: "store \<Rightarrow> nat \<Rightarrow> ident \<Rightarrow> int \<Rightarrow> response \<times> store" where
  "returnBook st uid i currentDate =
     (case findById st i of
        Inl e \<Rightarrow> (StoreError e, st)
      | Inr None \<Rightarrow> (NotFound, st)
      | Inr (Some book) \<Rightarrow>
          if borrower book \<noteq> Some uid then (NotBorrowedByUser, st)
          else
            let fine' = late_fine (dueDate book) currentDate;
                ledger = (case find (open_record (book_id book) uid) (borrows st) of
                            None \<Rightarrow> borrows st
                          | Some borrowRecord \<Rightarrow>
                              put_borrow (borrowRecord\<lparr>returnedAt := Some currentDate, fine := fine'\<rparr>)
                                (borrows st));
                book' = book\<lparr>status := Available, borrower := None, borrowedAt := None,
                              dueDate := None, availableCopies := availableCopies book + 1\<rparr>
            in ((200, ReturnedBody ''Book returned successfully'' (fine_message fine')),
                st\<lparr>books := put_book book' (books st), borrows := ledger\<rparr>))"

section \<open>Listing and history\<close>

text \<open>
  \<^verbatim>\<open>req.query\<close> of \<^verbatim>\<open>getBooks\<close>: the filters are strings or absent, \<^verbatim>\<open>page\<close> and \<^verbatim>\<open>limit\<close>
  are absent or text that \<^verbatim>\<open>Number\<close> reads as an integer.
\<close>

record query =
  q_search :: "string option"
  q_category :: "string option"
  q_author :: "string option"
  q_status :: "string option"
  q_page :: "int option"
  q_limit :: "int option"

fun status_name :: "status \<Rightarrow> string" where
  "status_name Available = ''Available''"
| "status_name Borrowed = ''Borrowed''"

text \<open>
  The search text goes into \<^verbatim>\<open>$regex\<close> as it is. The store's regular expressions are the
  parameter \<open>rx\<close>: \<open>rx p\<close> is \<open>None\<close> when the store rejects \<open>p\<close> as a pattern, and otherwise
  the case-insensitive match of \<open>p\<close>. A query without search text has no pattern to reject.
\<close>

definition search_matcher :: "(string \<Rightarrow> (string \<Rightarrow> bool) option) \<Rightarrow> query \<Rightarrow> (string \<Rightarrow> bool) option" where
  "search_matcher rx q =
     (if truthy_str (q_search q) then rx (nullish (q_search q) []) else Some (\<lambda>s. True))"

text \<open>
  The query object of lines 232-250, with \<open>m\<close> the match of the search text; a falsy filter
  adds no condition.
\<close>

definition matches_query :: "(string \<Rightarrow> bool) \<Rightarrow> query \<Rightarrow> book \<Rightarrow> bool" where
  "matches_query m q b =
     ((if truthy_str (q_search q) then m (title b) \<or> m (author b) \<or> m (category b) else True)
      \<and> (if truthy_str (q_category q) then category b = nullish (q_category q) [] else True)
      \<and> (if truthy_str (q_author q) then author b = nullish (q_author q) [] else True)
      \<and> (if truthy_str (q_status q) then status_name (status b) = nullish (q_status q) [] else True))"

text \<open>
  The cursor's \<^verbatim>\<open>limit\<close>: \<open>0\<close> means no limit, and the store reads a negative limit as its
  absolute value.
\<close>

definition cursor_limit :: "int \<Rightarrow> 'a list \<Rightarrow> 'a list" where
  "cursor_limit l xs = (if l = 0 then xs else take (nat \<bar>l\<bar>) xs)"

text \<open>
  \<^verbatim>\<open>Math.ceil(totalBooks / limit)\<close>: a division by zero gives \<^verbatim>\<open>Infinity\<close> or \<^verbatim>\<open>NaN\<close>, which
  JSON writes as \<^verbatim>\<open>null\<close>.
\<close>

definition totalPages :: "nat \<Rightarrow> int \<Rightarrow> int option" where
  "totalPages totalBooks limit =
     (if limit = 0 then None else Some \<lceil>real totalBooks / real_of_int limit\<rceil>)"

text \<open>
  \<^verbatim>\<open>getBooks\<close> (lines 227-267). The store rejects a pattern that is no regular expression
  and a negative \<^verbatim>\<open>skip\<close>; the handler reports either as a 500.
\<close>

definition getBooks :: "(string \<Rightarrow> (string \<Rightarrow> bool) option) \<Rightarrow> store \<Rightarrow> query \<Rightarrow> response \<times> store" where
  "getBooks rx st q =
     (let page = nullish (q_page q) 1;
          limit = nullish (q_limit q) 10;
          skip = (page - 1) * limit
      in case search_matcher rx q of
           None \<Rightarrow> (StoreError QueryError, st)
         | Some m \<Rightarrow>
             let found = filter (matches_query m q) (books st);
                 totalBooks = length found
             in if skip < 0 then (StoreError QueryError, st)
                else ((200, PageBody totalBooks page (totalPages totalBooks limit)
                              (cursor_limit limit (drop (nat skip) found))), st))"

text \<open>
  \<^verbatim>\<open>populate('book', 'title author category')\<close>: the reference is replaced by the selected
  fields of the book it names, or by \<^verbatim>\<open>null\<close> when no such book is left.
\<close>

record book_ref =
  ref_id :: nat
  ref_title :: string
  ref_author :: string
  ref_category :: string

definition populate :: "store \<Rightarrow> borrow \<Rightarrow> book_ref option" where
  "populate st r =
     (case find (\<lambda>b. book_id b = borrow_book r) (books st) of
        None \<Rightarrow> None
      | Some b \<Rightarrow> Some \<lparr>ref_id = book_id b, ref_title = title b,
                         ref_author = author b, ref_category = category b\<rparr>)"

definition history_of :: "borrow \<Rightarrow> book_ref \<Rightarrow> history_entry" where
  "history_of r b =
     \<lparr>h_id = borrow_id r, h_bookId = (ref_id b, ref_title b),
      h_title = ref_title b, h_author = ref_author b, h_category = ref_category b,
      h_status = (if returnedAt r \<noteq> None then ''Returned'' else ''Borrowed''),
      h_borrowedAt = borrow_borrowedAt r, h_dueDate = borrow_dueDate r,
      h_returnedAt = returnedAt r, h_fine = or_num (Some (fine r)) 0\<rparr>"

text \<open>
  The \<^verbatim>\<open>map\<close> of lines 286-300: reading \<^verbatim>\<open>record.book._id\<close> of a record whose book is
  \<^verbatim>\<open>null\<close> throws a \<^verbatim>\<open>TypeError\<close>, which ends the whole \<^verbatim>\<open>map\<close>.
\<close>

fun format_history :: "(borrow \<times> book_ref option) list \<Rightarrow> exn + history_entry list" where
  "format_history [] = Inr []"
| "format_history ((r, None) # rs) = Inl TypeError"
| "format_history ((r, Some b) # rs) =
     (case format_history rs of Inl e \<Rightarrow> Inl e | Inr hs \<Rightarrow> Inr (history_of r b # hs))"

text \<open>
  \<^verbatim>\<open>getUserHistory\<close> (lines 272-307). The records of the user, newest \<^verbatim>\<open>borrowedAt\<close> first
  (records of equal \<^verbatim>\<open>borrowedAt\<close> keep their insertion order here; the store promises no
  order for them). The test \<^verbatim>\<open>!borrowRecords\<close> never holds of an array.
\<close>

definition getUserHistory :: "store \<Rightarrow> nat \<Rightarrow> response \<times> store" where
  "getUserHistory st userId =
     (let borrowRecords =
            sort_key (\<lambda>r. - borrow_borrowedAt r) (filter (\<lambda>r. borrow_user r = userId) (borrows st))
      in case format_history (map (\<lambda>r. (r, populate st r)) borrowRecords) of
           Inl e \<Rightarrow> (StoreError e, st)
         | Inr history \<Rightarrow> ((200, HistoryBody history), st))"

section \<open>Sequences of requests\<close>

datatype op =
    Add req_body "string option"
  | Update ident req_body "string option"
  | Delete ident
  | Borrow nat ident int int
  | Return nat ident int

fun step :: "store \<Rightarrow> op \<Rightarrow> store" where
  "step st (Add b file) = snd (addBook st b file)"
| "step st (Update i b file) = snd (updateBook st i b file)"
| "step st (Delete i) = snd (deleteBook st i)"
| "step st (Borrow uid i now now') = snd (borrowBook st uid i now now')"
| "step st (Return uid i now) = snd (returnBook st uid i now)"

definition run :: "op list \<Rightarrow> store" where
  "run ops = foldl step empty_store ops"

text \<open>
  A request sequence keeps the counters in range when every Add gives a non-negative
  \<^verbatim>\<open>totalCopies\<close> and, if it gives \<^verbatim>\<open>availableCopies\<close> at all, one between 0 and
  \<^verbatim>\<open>totalCopies\<close>, and every Update leaves both counters out.
\<close>

fun counters_in_range :: "op \<Rightarrow> bool" where
  "counters_in_range (Add b file) =
     (case r_totalCopies b of
        None \<Rightarrow> True
      | Some t \<Rightarrow> 0 \<le> t \<and> (case r_availableCopies b of None \<Rightarrow> True | Some a \<Rightarrow> 0 \<le> a \<and> a \<le> t))"
| "counters_in_range (Update i b file) = (r_availableCopies b = None \<and> r_totalCopies b = None)"
| "counters_in_range (Delete i) = True"
| "counters_in_range (Borrow uid i now now') = True"
| "counters_in_range (Return uid i now) = True"

text \<open>
  The invariants of a book: the counters are in range, with a copy out while a borrower is
  recorded; and a recorded borrower goes with the status Borrowed.
\<close>

definition copies_ok :: "book \<Rightarrow> bool" where
  "copies_ok b = (0 \<le> availableCopies b \<and> availableCopies b \<le> totalCopies b
                  \<and> (borrower b \<noteq> None \<longrightarrow> availableCopies b < totalCopies b))"

definition slot_ok :: "book \<Rightarrow> bool" where
  "slot_ok b = (borrower b \<noteq> None \<longrightarrow> status b = Borrowed)"

section \<open>Example data\<close>

text \<open>The scenario of the specification: a book with two copies, borrowed by user 7.\<close>

definition req_X :: req_body where
  "req_X = \<lparr>r_title = Some ''X'', r_author = Some ''Y'', r_category = Some ''Z'',
            r_isbn = Some ''1'', r_description = None,
            r_availableCopies = None, r_totalCopies = Some 2\<rparr>"

definition book_X :: book where
  "book_X = new_book 0 ''X'' ''Y'' ''Z'' ''1'' [] 2 2"

definition borrowed_X :: book where
  "borrowed_X = book_X\<lparr>status := Borrowed, borrower := Some 7, borrowedAt := Some 1000,
                        dueDate := Some (1000 + loanPeriod), availableCopies := 1\<rparr>"

definition record_X :: borrow where
  "record_X = new_borrow 1 7 0 1000 (1000 + loanPeriod)"

definition store_X :: store where
  "store_X = \<lparr>books = [borrowed_X], borrows = [record_X], nextId = 2\<rparr>"


definition deleted_X :: store where
  "deleted_X = \<lparr>books = [], borrows = [record_X], nextId = 2\<rparr>"

text \<open>Add requests that give \<^verbatim>\<open>availableCopies\<close> as 5, above the total, and as 0.\<close>

definition req_over :: req_body where
  "req_over = req_X\<lparr>r_availableCopies := Some 5\<rparr>"

definition req_zero :: req_body where
  "req_zero = req_X\<lparr>r_availableCopies := Some 0\<rparr>"

text \<open>
  A book with a description, and an Update request that gives an empty title, an empty
  description and 0 available copies.
\<close>

definition described_X :: book where
  "described_X = book_X\<lparr>description := ''old''\<rparr>"

definition shelf :: store where
  "shelf = \<lparr>books = [described_X], borrows = [], nextId = 1\<rparr>"

definition no_fields :: req_body where
  "no_fields = \<lparr>r_title = None, r_author = None, r_category = None, r_isbn = None,
                r_description = None, r_availableCopies = None, r_totalCopies = None\<rparr>"

definition req_blank :: req_body where
  "req_blank = no_fields\<lparr>r_title := Some [], r_description := Some [], r_availableCopies := Some 0\<rparr>"

text \<open>Three books, listed two to a page.\<close>

definition three_books :: store where
  "three_books = \<lparr>books = [book_X, book_X\<lparr>book_id := 1, isbn := ''2''\<rparr>,
                            book_X\<lparr>book_id := 2, isbn := ''3''\<rparr>],
                  borrows = [], nextId = 3\<rparr>"

definition page_query :: "int \<Rightarrow> int \<Rightarrow> query" where
  "page_query p l = \<lparr>q_search = None, q_category = None, q_author = None, q_status = None,
                     q_page = Some p, q_limit = Some l\<rparr>"

text \<open>Regular expressions that accept every pattern and match nothing.\<close>

definition no_match :: "string \<Rightarrow> (string \<Rightarrow> bool) option" where
  "no_match p = Some (\<lambda>s. False)"

section \<open>Auxiliary facts\<close>

declare show_nat.simps [simp del]

subsection \<open>Finding and saving documents\<close>

lemma find_put_book:
  "find (\<lambda>b. book_id b = n) bs = Some b \<Longrightarrow> book_id b' = n
   \<Longrightarrow> find (\<lambda>b. book_id b = n) (put_book b' bs) = Some b'"
  by (induction bs) (auto simp: put_book_def)

lemma find_book_id: "find (\<lambda>b. book_id b = n) bs = Some b \<Longrightarrow> book_id b = n"
  by (induction bs) (auto split: if_splits)

lemma find_in_set: "find P xs = Some x \<Longrightarrow> x \<in> set xs"
  by (induction xs) (auto split: if_splits)

lemma findById_in_set: "findById st i = Inr (Some b) \<Longrightarrow> b \<in> set (books st)"
  by (cases i) (auto dest: find_in_set)

lemma put_book_all: "P b \<Longrightarrow> \<forall>c \<in> set bs. P c \<Longrightarrow> \<forall>c \<in> set (put_book b bs). P c"
  by (auto simp: put_book_def)

text \<open>A book saved under its id is what \<^verbatim>\<open>findById\<close> gives next.\<close>

lemma findById_saved:
  assumes "findById st i = Inr (Some b)" and "book_id b' = book_id b"
      and "books st' = put_book b' (books st)"
  shows "findById st' i = Inr (Some b')"
proof (cases i)
  case (ObjectId n)
  with assms(1) have f: "find (\<lambda>b. book_id b = n) (books st) = Some b" by simp
  then have "book_id b = n" by (rule find_book_id)
  with assms(2) have "book_id b' = n" by simp
  with f have "find (\<lambda>b. book_id b = n) (put_book b' (books st)) = Some b'"
    by (rule find_put_book)
  with ObjectId assms(3) show ?thesis by simp
next
  case (Malformed s)
  with assms(1) show ?thesis by simp
qed

subsection \<open>What Update, Borrow and Return do to a book that is found\<close>

lemma update_fields_sel:
  "title (update_fields old b f) = or_str (r_title b) (title old)"
  "author (update_fields old b f) = or_str (r_author b) (author old)"
  "category (update_fields old b f) = or_str (r_category b) (category old)"
  "isbn (update_fields old b f) = or_str (r_isbn b) (isbn old)"
  "description (update_fields old b f) = nullish (r_description b) (description old)"
  "availableCopies (update_fields old b f) = nullish (r_availableCopies b) (availableCopies old)"
  "totalCopies (update_fields old b f) = nullish (r_totalCopies b) (totalCopies old)"
  "book_id (update_fields old b f) = book_id old"
  "status (update_fields old b f) = status old"
  "borrower (update_fields old b f) = borrower old"
  "borrowedAt (update_fields old b f) = borrowedAt old"
  "dueDate (update_fields old b f) = dueDate old"
  by (cases f; simp add: update_fields_def Let_def)+

lemma copies_ok_update_fields:
  "r_availableCopies b = None \<Longrightarrow> r_totalCopies b = None
   \<Longrightarrow> copies_ok (update_fields book b f) = copies_ok book"
  by (simp add: copies_ok_def update_fields_sel nullish_def)

lemma slot_ok_update_fields: "slot_ok (update_fields book b f) = slot_ok book"
  by (simp add: slot_ok_def update_fields_sel)

lemma borrowBook_success:
  assumes "borrowBook st uid i now now' = ((200, bd), st1)"
  shows "\<exists>book. findById st i = Inr (Some book) \<and> status book \<noteq> Borrowed
           \<and> availableCopies book \<noteq> 0 \<and> borrower book \<noteq> Some uid
           \<and> valid_time (now' + loanPeriod)
           \<and> findById st1 i
               = Inr (Some (book\<lparr>status := Borrowed, borrower := Some uid,
                                  borrowedAt := Some now, dueDate := Some (now' + loanPeriod),
                                  availableCopies := availableCopies book - 1\<rparr>))"
proof (cases "findById st i")
  case (Inl e)
  with assms show ?thesis by (simp add: borrowBook_def StoreError_def)
next
  case (Inr found)
  show ?thesis
  proof (cases found)
    case None
    with Inr assms show ?thesis by (simp add: borrowBook_def NotFound_def)
  next
    case (Some book)
    let ?book' = "book\<lparr>status := Borrowed, borrower := Some uid,
                        borrowedAt := Some now, dueDate := Some (now' + loanPeriod),
                        availableCopies := availableCopies book - 1\<rparr>"
    from assms Inr Some have ok: "status book \<noteq> Borrowed" "availableCopies book \<noteq> 0"
        "borrower book \<noteq> Some uid" "valid_time (now' + loanPeriod)"
      by (auto simp: borrowBook_def Unavailable_def AlreadyBorrowed_def StoreError_def
          split: if_splits)
    with assms Inr Some have saved: "books st1 = put_book ?book' (books st)"
      by (auto simp: borrowBook_def Let_def)
    from Inr Some have found: "findById st i = Inr (Some book)" by simp
    have "book_id ?book' = book_id book" by simp
    with found have "findById st1 i = Inr (Some ?book')"
      using saved by (rule findById_saved)
    with found ok show ?thesis by blast
  qed
qed

lemma returnBook_found:
  assumes "findById st i = Inr (Some book)" and "borrower book = Some uid"
  shows "returnBook st uid i now
           = ((200, ReturnedBody ''Book returned successfully''
                      (fine_message (late_fine (dueDate book) now))),
              st\<lparr>books := put_book (book\<lparr>status := Available, borrower := None,
                                          borrowedAt := None, dueDate := None,
                                          availableCopies := availableCopies book + 1\<rparr>) (books st),
                 borrows := (case find (open_record (book_id book) uid) (borrows st) of
                               None \<Rightarrow> borrows st
                             | Some r \<Rightarrow> put_borrow (r\<lparr>returnedAt := Some now,
                                                        fine := late_fine (dueDate book) now\<rparr>)
                                          (borrows st))\<rparr>)"
  using assms by (simp add: returnBook_def Let_def)

lemma returnBook_found_book:
  assumes "findById st i = Inr (Some book)" and "borrower book = Some uid"
  shows "findById (snd (returnBook st uid i now)) i
           = Inr (Some (book\<lparr>status := Available, borrower := None, borrowedAt := None,
                              dueDate := None, availableCopies := availableCopies book + 1\<rparr>))"
  using assms(1) unfolding returnBook_found [OF assms]
  by (rule findById_saved) simp_all

subsection \<open>The late fee\<close>

lemma daysLate_div: "daysLate c d = - ((d - c) div msPerDay)"
  unfolding daysLate_def using ceiling_divide_eq_div [of "c - d" msPerDay] by simp

lemma late_fine_pos: "d < c \<Longrightarrow> 0 < late_fine (Some d) c"
  by (simp add: late_fine_def daysLate_def msPerDay_def)

lemma show_int_5: "show_int 5 = ''5''"
  by code_simp

lemma show_int_50: "show_int 50 = ''50''"
  by code_simp

subsection \<open>The scenario, run\<close>

text \<open>The book gets id 0 and the Borrow record id 1.\<close>

lemma run_add_X: "run [Add req_X None] = \<lparr>books = [book_X], borrows = [], nextId = 1\<rparr>"
  by (simp add: run_def empty_store_def addBook_def req_X_def book_X_def truthy_str_def
      truthy_num_def nullish_def or_str_def or_num_def isbn_taken_def new_book_def Let_def)

lemma borrow_X:
  "borrowBook (run [Add req_X None]) 7 (ObjectId 0) 1000 1000
     = ((200, BorrowedBody ''Book borrowed successfully'' ''X'' 1000 604801000), store_X)"
  unfolding run_add_X
  by (simp add: borrowBook_def book_X_def new_book_def borrowed_X_def record_X_def
      store_X_def put_book_def loanPeriod_def valid_time_def maxTime_def Let_def)

lemma run_borrow_X: "run [Add req_X None, Borrow 7 (ObjectId 0) 1000 1000] = store_X"
proof -
  have "run [Add req_X None, Borrow 7 (ObjectId 0) 1000 1000]
        = snd (borrowBook (run [Add req_X None]) 7 (ObjectId 0) 1000 1000)"
    by (simp add: run_def)
  then show ?thesis by (simp add: borrow_X)
qed

lemma run_delete_X:
  "run [Add req_X None, Borrow 7 (ObjectId 0) 1000 1000, Delete (ObjectId 0)] = deleted_X"
proof -
  have "run [Add req_X None, Borrow 7 (ObjectId 0) 1000 1000, Delete (ObjectId 0)]
        = snd (deleteBook (run [Add req_X None, Borrow 7 (ObjectId 0) 1000 1000]) (ObjectId 0))"
    by (simp add: run_def)
  also have "\<dots> = deleted_X"
    unfolding run_borrow_X
    by (simp add: deleteBook_def store_X_def deleted_X_def borrowed_X_def book_X_def new_book_def)
  finally show ?thesis .
qed

lemma find_X: "findById store_X (ObjectId 0) = Inr (Some borrowed_X)"
  by (simp add: store_X_def borrowed_X_def book_X_def new_book_def)


lemma find_shelf: "findById shelf (ObjectId 0) = Inr (Some described_X)"
  by (simp add: shelf_def described_X_def book_X_def new_book_def)

lemma borrower_X: "borrower borrowed_X = Some 7"
  by (simp add: borrowed_X_def)

lemma due_X: "dueDate borrowed_X = Some 604801000"
  by (simp add: borrowed_X_def loanPeriod_def)

lemma update_blank:
  "updateBook shelf (ObjectId 0) req_blank None
     = ((200, BookDoc (described_X\<lparr>description := [], availableCopies := 0\<rparr>)),
        \<lparr>books = [described_X\<lparr>description := [], availableCopies := 0\<rparr>], borrows = [], nextId = 1\<rparr>)"
  by (simp add: updateBook_def shelf_def req_blank_def no_fields_def described_X_def book_X_def
      new_book_def update_fields_def or_str_def nullish_def isbn_taken_def put_book_def Let_def)

subsection \<open>Each request keeps the invariants\<close>

lemma step_copies_ok:
  assumes "\<forall>b \<in> set (books st). copies_ok b" and "counters_in_range x"
  shows "\<forall>b \<in> set (books (step st x)). copies_ok b"
proof (cases x)
  case (Add b f)
  with assms show ?thesis
    by (auto simp: addBook_def Let_def new_book_def copies_ok_def or_num_def nullish_def
        truthy_num_def split: option.splits if_splits)
next
  case (Update i b f)
  show ?thesis
  proof (cases "findById st i")
    case (Inl e)
    with Update assms show ?thesis by (simp add: updateBook_def)
  next
    case (Inr found)
    show ?thesis
    proof (cases found)
      case None
      with Inr Update assms show ?thesis by (simp add: updateBook_def)
    next
      case (Some book)
      with Inr have "copies_ok book"
        using assms(1) findById_in_set by blast
      with Update assms(2) have "copies_ok (update_fields book b f)"
        by (simp add: copies_ok_update_fields)
      with assms(1) have "\<forall>c \<in> set (put_book (update_fields book b f) (books st)). copies_ok c"
        by (intro put_book_all)
      with Some Inr Update assms(1) show ?thesis
        by (simp add: updateBook_def Let_def)
    qed
  qed
next
  case (Delete i)
  with assms show ?thesis
    by (auto simp: deleteBook_def split: option.splits sum.splits)
next
  case (Borrow uid i now now')
  with assms show ?thesis
    by (auto simp: borrowBook_def Let_def copies_ok_def put_book_def
        split: option.splits if_splits sum.splits dest!: findById_in_set)
next
  case (Return uid i now)
  with assms show ?thesis
    by (auto simp: returnBook_def Let_def copies_ok_def put_book_def
        split: option.splits if_splits sum.splits dest!: findById_in_set)
qed

lemma foldl_step_copies_ok:
  "\<forall>b \<in> set (books st). copies_ok b \<Longrightarrow> \<forall>x \<in> set ops. counters_in_range x
   \<Longrightarrow> \<forall>b \<in> set (books (foldl step st ops)). copies_ok b"
proof (induction ops arbitrary: st)
  case Nil
  then show ?case by simp
next
  case (Cons x ops)
  from Cons.prems have "\<forall>b \<in> set (books (step st x)). copies_ok b"
    by (intro step_copies_ok) simp_all
  with Cons show ?case by simp
qed

lemma step_slot_ok:
  assumes "\<forall>b \<in> set (books st). slot_ok b"
  shows "\<forall>b \<in> set (books (step st x)). slot_ok b"
proof (cases x)
  case (Add b f)
  with assms show ?thesis
    by (cases f) (auto simp: addBook_def Let_def new_book_def slot_ok_def)
next
  case (Update i b f)
  show ?thesis
  proof (cases "findById st i")
    case (Inl e)
    with Update assms show ?thesis by (simp add: updateBook_def)
  next
    case (Inr found)
    show ?thesis
    proof (cases found)
      case None
      with Inr Update assms show ?thesis by (simp add: updateBook_def)
    next
      case (Some book)
      with Inr have "slot_ok book"
        using assms findById_in_set by blast
      then have "slot_ok (update_fields book b f)"
        by (simp add: slot_ok_update_fields)
      with assms have "\<forall>c \<in> set (put_book (update_fields book b f) (books st)). slot_ok c"
        by (intro put_book_all)
      with Some Inr Update assms show ?thesis
        by (simp add: updateBook_def Let_def)
    qed
  qed
next
  case (Delete i)
  with assms show ?thesis
    by (auto simp: deleteBook_def split: option.splits sum.splits)
next
  case (Borrow uid i now now')
  with assms show ?thesis
    by (auto simp: borrowBook_def Let_def slot_ok_def put_book_def
        split: option.splits if_splits sum.splits dest!: findById_in_set)
next
  case (Return uid i now)
  with assms show ?thesis
    by (auto simp: returnBook_def Let_def slot_ok_def put_book_def
        split: option.splits if_splits sum.splits dest!: findById_in_set)
qed

lemma run_slot_ok: "\<forall>b \<in> set (books (run ops)). slot_ok b"
proof -
  have "\<forall>b \<in> set (books st). slot_ok b \<Longrightarrow> \<forall>b \<in> set (books (foldl step st ops)). slot_ok b" for st
  proof (induction ops arbitrary: st)
    case Nil
    then show ?case by simp
  next
    case (Cons x ops)
    from Cons.prems have "\<forall>b \<in> set (books (step st x)). slot_ok b"
      by (rule step_slot_ok)
    then show ?case using Cons.IH by simp
  qed
  from this [of empty_store] show ?thesis by (simp add: run_def empty_store_def)
qed

subsection \<open>Histories\<close>

lemma format_history_ids:
  "format_history (map (\<lambda>r. (r, populate st r)) rs) = Inr hs \<Longrightarrow> map h_id hs = map borrow_id rs"
proof (induction rs arbitrary: hs)
  case Nil
  then show ?case by simp
next
  case (Cons r rs)
  then show ?case
    by (cases "populate st r") (auto simp: history_of_def split: sum.splits)
qed

lemma format_history_total:
  "\<forall>r \<in> set rs. populate st r \<noteq> None
   \<Longrightarrow> \<exists>hs. format_history (map (\<lambda>r. (r, populate st r)) rs) = Inr hs"
  by (induction rs) auto

text \<open>
  While every record of the user names a book that is still there, the history holds one
  entry for each of the user's records, in the order of the sort.
\<close>

lemma getUserHistory_books_present:
  assumes "\<forall>r \<in> set (borrows st). borrow_user r = userId \<longrightarrow> populate st r \<noteq> None"
  shows "\<exists>hs. getUserHistory st userId = ((200, HistoryBody hs), st)
           \<and> map h_id hs
               = map borrow_id (sort_key (\<lambda>r. - borrow_borrowedAt r)
                                  (filter (\<lambda>r. borrow_user r = userId) (borrows st)))"
proof -
  let ?rs = "sort_key (\<lambda>r. - borrow_borrowedAt r) (filter (\<lambda>r. borrow_user r = userId) (borrows st))"
  from assms have "\<forall>r \<in> set ?rs. populate st r \<noteq> None" by simp
  then obtain hs where hs: "format_history (map (\<lambda>r. (r, populate st r)) ?rs) = Inr hs"
    using format_history_total by blast
  then have "map h_id hs = map borrow_id ?rs" by (rule format_history_ids)
  with hs show ?thesis by (simp add: getUserHistory_def)
qed

section \<open>Borrowing a book one already holds\<close>

text \<open>
  No store that the handlers build from the empty one makes \<^verbatim>\<open>borrowBook\<close> answer
  \<^verbatim>\<open>You have already borrowed this book\<close>: a recorded borrower goes with the status
  Borrowed, which the availability test of line 134 catches first.
\<close>

lemma AlreadyBorrowed_unreachable:
  "fst (borrowBook (run ops) uid i now now') \<noteq> AlreadyBorrowed"
proof (cases "findById (run ops) i")
  case (Inl e)
  then show ?thesis by (simp add: borrowBook_def StoreError_def AlreadyBorrowed_def)
next
  case (Inr found)
  show ?thesis
  proof (cases found)
    case None
    with Inr show ?thesis by (simp add: borrowBook_def NotFound_def AlreadyBorrowed_def)
  next
    case (Some book)
    with Inr have "slot_ok book"
      using run_slot_ok findById_in_set by blast
    with Some Inr show ?thesis
      by (auto simp: borrowBook_def Let_def slot_ok_def Unavailable_def AlreadyBorrowed_def
          StoreError_def)
  qed
qed

text \<open>
  C1. A Borrow request by the user recorded as the book's borrower should fail with
  AlreadyBorrowed and change nothing. In the store of the scenario, where user 7 has
  borrowed book 0, a second Borrow by user 7 changes nothing but is answered
  \<^verbatim>\<open>Book is currently unavailable\<close> (Unavailable), not AlreadyBorrowed.
\<close>

theorem second_borrow_unavailable:
  "borrower borrowed_X = Some 7
   \<and> findById store_X (ObjectId 0) = Inr (Some borrowed_X)
   \<and> borrowBook store_X 7 (ObjectId 0) 2000 2000 = (Unavailable, store_X)
   \<and> Unavailable \<noteq> AlreadyBorrowed"
  by (simp add: borrowBook_def store_X_def borrowed_X_def book_X_def new_book_def
      Unavailable_def AlreadyBorrowed_def Let_def)

section \<open>The counters stay in range\<close>

text \<open>
  C2, as stated, fails at Add: a request with \<^verbatim>\<open>availableCopies\<close> 5 and \<^verbatim>\<open>totalCopies\<close> 2
  is stored as given, with more copies available than there are.
\<close>

theorem add_above_total_counterexample:
  "addBook empty_store req_over None
     = ((201, BookDoc (book_X\<lparr>availableCopies := 5\<rparr>)),
        \<lparr>books = [book_X\<lparr>availableCopies := 5\<rparr>], borrows = [], nextId = 1\<rparr>)
   \<and> \<not> availableCopies (book_X\<lparr>availableCopies := 5\<rparr>) \<le> totalCopies (book_X\<lparr>availableCopies := 5\<rparr>)"
  by (simp add: empty_store_def addBook_def req_over_def req_X_def book_X_def truthy_str_def
      truthy_num_def nullish_def or_str_def or_num_def isbn_taken_def new_book_def Let_def)

text \<open>
  C2, amended. In every store built from the empty one by requests that keep the counters
  in range (Adds whose \<^verbatim>\<open>totalCopies\<close> is not negative and whose \<^verbatim>\<open>availableCopies\<close>, when
  given, lies between 0 and \<^verbatim>\<open>totalCopies\<close>; Updates that leave both counters out; any
  Delete, Borrow and Return), every book has \<open>0 \<le> availableCopies \<le> totalCopies\<close>. So the
  bound holds after each Add, Borrow and Return of such a sequence.
\<close>

theorem copies_within_bounds:
  assumes "\<forall>x \<in> set ops. counters_in_range x" and "b \<in> set (books (run ops))"
  shows "0 \<le> availableCopies b \<and> availableCopies b \<le> totalCopies b"
proof -
  have "\<forall>b \<in> set (books (foldl step empty_store ops)). copies_ok b"
    using assms(1) by (intro foldl_step_copies_ok) (simp_all add: empty_store_def)
  with assms(2) show ?thesis
    by (simp add: run_def copies_ok_def)
qed

theorem copies_within_bounds_witness:
  "counters_in_range (Add req_X None) \<and> counters_in_range (Borrow 7 (ObjectId 0) 1000 1000)
   \<and> borrowed_X \<in> set (books (run [Add req_X None, Borrow 7 (ObjectId 0) 1000 1000]))
   \<and> 0 \<le> availableCopies borrowed_X \<and> availableCopies borrowed_X \<le> totalCopies borrowed_X"
proof -
  have ops: "\<forall>x \<in> set [Add req_X None, Borrow 7 (ObjectId 0) 1000 1000]. counters_in_range x"
    by (simp add: req_X_def)
  have mem: "borrowed_X \<in> set (books (run [Add req_X None, Borrow 7 (ObjectId 0) 1000 1000]))"
    by (simp add: run_borrow_X store_X_def)
  from ops mem copies_within_bounds [OF ops mem] show ?thesis by simp
qed

section \<open>The available copies of a new book\<close>

text \<open>
  What \<^verbatim>\<open>addBook\<close> stores: the given \<^verbatim>\<open>availableCopies\<close> unless it is absent or 0, and
  \<^verbatim>\<open>totalCopies\<close> then.
\<close>

lemma addBook_availableCopies:
  assumes "addBook st b f = ((201, BookDoc bk), st')"
  shows "books st' = books st @ [bk]
     \<and> totalCopies bk = nullish (r_totalCopies b) 0
     \<and> availableCopies bk = (case r_availableCopies b of
                                None \<Rightarrow> totalCopies bk
                              | Some a \<Rightarrow> if a = 0 then totalCopies bk else a)"
  using assms
  by (cases f) (auto simp: addBook_def Let_def new_book_def or_num_def ValidationError_def
      StoreError_def split: if_splits option.splits)

text \<open>
  C3. The stored \<^verbatim>\<open>availableCopies\<close> should be the value the Add request gives, and
  \<^verbatim>\<open>totalCopies\<close> only when it gives none. A request that gives \<^verbatim>\<open>availableCopies\<close> 0 with
  \<^verbatim>\<open>totalCopies\<close> 2 is stored with 2 available copies: \<^verbatim>\<open>availableCopies || totalCopies\<close> of
  line 24 takes 0 for absent.
\<close>

theorem add_zero_available:
  "r_availableCopies req_zero = Some 0
   \<and> addBook empty_store req_zero None
       = ((201, BookDoc book_X), \<lparr>books = [book_X], borrows = [], nextId = 1\<rparr>)
   \<and> availableCopies book_X = 2"
  by (simp add: empty_store_def addBook_def req_zero_def req_X_def book_X_def truthy_str_def
      truthy_num_def nullish_def or_str_def or_num_def isbn_taken_def new_book_def Let_def)

theorem add_zero_available_witness:
  "books (snd (addBook empty_store req_zero None)) = [book_X] \<and> availableCopies book_X \<noteq> 0"
  using add_zero_available by simp

section \<open>The late fee of a return\<close>

text \<open>
  C4. A Return by the recorded borrower of a book due at \<open>due\<close>, for valid dates and a
  lateness that is a safe integer (below \<open>2^53\<close> milliseconds, where the integer arithmetic
  is the code's): the fine is 0 when \<open>now \<le> due\<close>, and the ceiling of the lateness in
  days times 5 when \<open>now > due\<close>; the response carries \<^verbatim>\<open>No fine applied\<close> in the first case
  and the rupee sign, the fine and \<^verbatim>\<open>has been applied for late return\<close> in the second. A
  return at \<open>due\<close> costs 0, one second later 5, ten days later 50.
\<close>

theorem return_fine:
  assumes "findById st i = Inr (Some book)" and "borrower book = Some uid"
      and "dueDate book = Some due"
      and "valid_time due" and "valid_time now" and "now - due < 2 ^ 53"
  shows "late_fine (dueDate book) now
           = (if now \<le> due then 0 else \<lceil>real_of_int (now - due) / 86400000\<rceil> * 5)
     \<and> fst (returnBook st uid i now)
           = (200, ReturnedBody ''Book returned successfully''
                     (if now \<le> due then ''No fine applied''
                      else rupee @ show_int (late_fine (dueDate book) now)
                             @ '' has been applied for late return''))
     \<and> (now = due \<longrightarrow> late_fine (dueDate book) now = 0)
     \<and> (now = due + 1000 \<longrightarrow> late_fine (dueDate book) now = 5)
     \<and> (now = due + 10 * 86400000 \<longrightarrow> late_fine (dueDate book) now = 50)"
proof -
  have 1: "late_fine (dueDate book) now
           = (if now \<le> due then 0 else \<lceil>real_of_int (now - due) / 86400000\<rceil> * 5)"
    using assms(3) by (simp add: late_fine_def daysLate_def msPerDay_def)
  have pos: "\<not> now \<le> due \<Longrightarrow> 0 < late_fine (dueDate book) now"
    using assms(3) late_fine_pos [of due now] by simp
  have zero: "now \<le> due \<Longrightarrow> late_fine (dueDate book) now = 0"
    using 1 by simp
  have 2: "fst (returnBook st uid i now)
           = (200, ReturnedBody ''Book returned successfully''
                     (if now \<le> due then ''No fine applied''
                      else rupee @ show_int (late_fine (dueDate book) now)
                             @ '' has been applied for late return''))"
    using pos zero by (simp add: returnBook_found [OF assms(1,2)] fine_message_def)
  have 3: "now = due \<longrightarrow> late_fine (dueDate book) now = 0"
    using assms(3) by (simp add: late_fine_def)
  have 4: "now = due + 1000 \<longrightarrow> late_fine (dueDate book) now = 5"
    using assms(3) by (simp add: late_fine_def daysLate_div msPerDay_def)
  have 5: "now = due + 10 * 86400000 \<longrightarrow> late_fine (dueDate book) now = 50"
    using assms(3) by (simp add: late_fine_def daysLate_div msPerDay_def)
  from 1 2 3 4 5 show ?thesis by blast
qed

theorem return_fine_witness:
  "findById store_X (ObjectId 0) = Inr (Some borrowed_X) \<and> borrower borrowed_X = Some 7
   \<and> dueDate borrowed_X = Some 604801000
   \<and> valid_time 604801000 \<and> valid_time 604802000 \<and> valid_time 1468801000
   \<and> fst (returnBook store_X 7 (ObjectId 0) 604801000)
       = (200, ReturnedBody ''Book returned successfully'' ''No fine applied'')
   \<and> fst (returnBook store_X 7 (ObjectId 0) 604802000)
       = (200, ReturnedBody ''Book returned successfully''
                 (rupee @ ''5 has been applied for late return''))
   \<and> fst (returnBook store_X 7 (ObjectId 0) 1468801000)
       = (200, ReturnedBody ''Book returned successfully''
                 (rupee @ ''50 has been applied for late return''))"
proof -
  have valid: "valid_time 604801000" "valid_time 604802000" "valid_time 1468801000"
    by (simp_all add: valid_time_def maxTime_def)
  note at_due = return_fine [OF find_X borrower_X due_X valid(1) valid(1)]
  note second = return_fine [OF find_X borrower_X due_X valid(1) valid(2)]
  note ten_days = return_fine [OF find_X borrower_X due_X valid(1) valid(3)]
  have late5: "late_fine (dueDate borrowed_X) 604802000 = 5"
    using second by simp
  have late50: "late_fine (dueDate borrowed_X) 1468801000 = 50"
    using ten_days by simp
  have "fst (returnBook store_X 7 (ObjectId 0) 604801000)
        = (200, ReturnedBody ''Book returned successfully'' ''No fine applied'')"
    using at_due by simp
  moreover have "fst (returnBook store_X 7 (ObjectId 0) 604802000)
        = (200, ReturnedBody ''Book returned successfully''
                  (rupee @ ''5 has been applied for late return''))"
    using second by (simp only: late5 show_int_5) simp
  moreover have "fst (returnBook store_X 7 (ObjectId 0) 1468801000)
        = (200, ReturnedBody ''Book returned successfully''
                  (rupee @ ''50 has been applied for late return''))"
    using ten_days by (simp only: late50 show_int_50) simp
  ultimately show ?thesis
    using find_X borrower_X due_X valid by simp
qed

section \<open>The history of a user\<close>

text \<open>
  C5. The history of a user should hold every Borrow record of the user, also one whose
  book was deleted. After Add, Borrow by user 7 and Delete of the book, the store is
  \<open>deleted_X\<close> (\<open>run_delete_X\<close>): user 7 has one record, and the history request is answered
  500, with the \<^verbatim>\<open>TypeError\<close> of reading \<^verbatim>\<open>record.book._id\<close> of a \<^verbatim>\<open>null\<close> book, and no record.
\<close>

theorem history_of_deleted_book_fails:
  "filter (\<lambda>r. borrow_user r = 7) (borrows deleted_X) = [record_X]
   \<and> getUserHistory deleted_X 7 = (StoreError TypeError, deleted_X)
   \<and> StoreError TypeError = (500, ErrMsg TypeError)"
  by (simp add: getUserHistory_def deleted_X_def record_X_def new_borrow_def populate_def
      StoreError_def)

section \<open>What an update overwrites\<close>

text \<open>
  C6, as stated, fails for \<^verbatim>\<open>description\<close>: an Update that gives the empty string as
  description, which is not truthy, overwrites the stored description \<^verbatim>\<open>old\<close>.
\<close>

theorem empty_description_counterexample:
  "findById shelf (ObjectId 0) = Inr (Some described_X)
   \<and> description described_X = ''old''
   \<and> r_description req_blank = Some []
   \<and> \<not> truthy_str (r_description req_blank)
   \<and> updateBook shelf (ObjectId 0) req_blank None
       = ((200, BookDoc (described_X\<lparr>description := [], availableCopies := 0\<rparr>)),
          \<lparr>books = [described_X\<lparr>description := [], availableCopies := 0\<rparr>], borrows = [], nextId = 1\<rparr>)
   \<and> description (described_X\<lparr>description := [], availableCopies := 0\<rparr>) \<noteq> description described_X"
  by (simp add: update_blank)
    (simp add: shelf_def req_blank_def no_fields_def described_X_def book_X_def new_book_def
      truthy_str_def)

text \<open>
  C6, amended. A successful Update of a book overwrites \<^verbatim>\<open>availableCopies\<close> and
  \<^verbatim>\<open>totalCopies\<close> whenever they are given, also as 0, and \<^verbatim>\<open>description\<close> whenever it is
  given, also as the empty string; it overwrites \<^verbatim>\<open>title\<close>, \<^verbatim>\<open>author\<close>, \<^verbatim>\<open>category\<close> and
  \<^verbatim>\<open>isbn\<close> only when they are given and not empty. A field that is absent, and one of the
  last four given as the empty string, keeps its stored value, and the borrowing state of
  the book is not touched.
\<close>

theorem updateBook_overwrites:
  assumes "findById st i = Inr (Some old)"
      and "updateBook st i b file = ((200, bd), st')"
  shows "\<exists>new. bd = BookDoc new \<and> findById st' i = Inr (Some new)
     \<and> (\<forall>n. r_availableCopies b = Some n \<longrightarrow> availableCopies new = n)
     \<and> (r_availableCopies b = None \<longrightarrow> availableCopies new = availableCopies old)
     \<and> (\<forall>n. r_totalCopies b = Some n \<longrightarrow> totalCopies new = n)
     \<and> (r_totalCopies b = None \<longrightarrow> totalCopies new = totalCopies old)
     \<and> (\<forall>s. r_description b = Some s \<longrightarrow> description new = s)
     \<and> (r_description b = None \<longrightarrow> description new = description old)
     \<and> (\<forall>s. r_title b = Some s \<and> s \<noteq> [] \<longrightarrow> title new = s)
     \<and> (r_title b = None \<or> r_title b = Some [] \<longrightarrow> title new = title old)
     \<and> (\<forall>s. r_author b = Some s \<and> s \<noteq> [] \<longrightarrow> author new = s)
     \<and> (r_author b = None \<or> r_author b = Some [] \<longrightarrow> author new = author old)
     \<and> (\<forall>s. r_category b = Some s \<and> s \<noteq> [] \<longrightarrow> category new = s)
     \<and> (r_category b = None \<or> r_category b = Some [] \<longrightarrow> category new = category old)
     \<and> (\<forall>s. r_isbn b = Some s \<and> s \<noteq> [] \<longrightarrow> isbn new = s)
     \<and> (r_isbn b = None \<or> r_isbn b = Some [] \<longrightarrow> isbn new = isbn old)
     \<and> status new = status old \<and> borrower new = borrower old
     \<and> borrowedAt new = borrowedAt old \<and> dueDate new = dueDate old"
proof -
  let ?new = "update_fields old b file"
  from assms have free: "\<not> isbn_taken st ?new"
    by (auto simp: updateBook_def Let_def StoreError_def)
  with assms have bd: "bd = BookDoc ?new" and saved: "books st' = put_book ?new (books st)"
    by (auto simp: updateBook_def Let_def)
  have "book_id ?new = book_id old" by (simp add: update_fields_sel)
  with assms(1) have found: "findById st' i = Inr (Some ?new)"
    using saved by (rule findById_saved)
  show ?thesis
    by (rule exI [of _ ?new]) (simp add: bd found update_fields_sel or_str_def nullish_def)
qed

theorem updateBook_overwrites_witness:
  "findById shelf (ObjectId 0) = Inr (Some described_X)
   \<and> r_title req_blank = Some [] \<and> r_description req_blank = Some []
   \<and> r_availableCopies req_blank = Some 0 \<and> r_totalCopies req_blank = None
   \<and> (\<exists>new. findById (snd (updateBook shelf (ObjectId 0) req_blank None)) (ObjectId 0) = Inr (Some new)
        \<and> title new = ''X'' \<and> description new = [] \<and> availableCopies new = 0
        \<and> totalCopies new = 2)"
proof -
  have req: "r_title req_blank = Some []" "r_description req_blank = Some []"
      "r_availableCopies req_blank = Some 0" "r_totalCopies req_blank = None"
    by (simp_all add: req_blank_def no_fields_def)
  have old: "title described_X = ''X''" "totalCopies described_X = 2"
    by (simp_all add: described_X_def book_X_def new_book_def)
  from updateBook_overwrites [OF find_shelf update_blank] req old
  have "\<exists>new. findById (snd (updateBook shelf (ObjectId 0) req_blank None)) (ObjectId 0) = Inr (Some new)
        \<and> title new = ''X'' \<and> description new = [] \<and> availableCopies new = 0
        \<and> totalCopies new = 2"
    by (simp add: update_blank)
  with find_shelf req show ?thesis by simp
qed

section \<open>A return without a Borrow record\<close>



section \<open>Pages of the listing\<close>

text \<open>A search text that the store rejects as a pattern, and a page below 1, are answered 500.\<close>

lemma getBooks_rejected_pattern:
  "search_matcher rx q = None \<Longrightarrow> getBooks rx st q = (StoreError QueryError, st)"
  by (simp add: getBooks_def Let_def)

lemma getBooks_page_below_1:
  assumes "nullish (q_page q) 1 < 1" and "1 \<le> nullish (q_limit q) 10"
  shows "getBooks rx st q = (StoreError QueryError, st)"
proof -
  from assms have "(nullish (q_page q) 1 - 1) * nullish (q_limit q) 10 < 0"
    by (simp add: mult_neg_pos)
  then show ?thesis
    by (cases "search_matcher rx q") (simp_all add: getBooks_def Let_def)
qed

text \<open>
  C8, as stated, fails for a limit that is not positive. With three books and limit -2,
  the listing reports -1 pages, and page 1, which is beyond that, holds two books. With
  limit 0 the number of pages is \<^verbatim>\<open>null\<close>, not a ceiling, and page 5 holds all three books.
\<close>

theorem nonpositive_limit_counterexample:
  "getBooks no_match three_books (page_query 1 (- 2))
     = ((200, PageBody 3 1 (Some (- 1)) [book_X, book_X\<lparr>book_id := 1, isbn := ''2''\<rparr>]),
        three_books)
   \<and> (- 1 :: int) < 1
   \<and> [book_X, book_X\<lparr>book_id := 1, isbn := ''2''\<rparr>] \<noteq> []
   \<and> getBooks no_match three_books (page_query 5 0)
     = ((200, PageBody 3 5 None [book_X, book_X\<lparr>book_id := 1, isbn := ''2''\<rparr>,
                                 book_X\<lparr>book_id := 2, isbn := ''3''\<rparr>]),
        three_books)"
  by (simp add: getBooks_def search_matcher_def matches_query_def page_query_def no_match_def
      three_books_def truthy_str_def nullish_def totalPages_def cursor_limit_def Let_def)

text \<open>
  C8, amended. For a page number of at least 1 and a limit of at least 1 (1 and 10 when
  absent), and a search text that the store accepts as a pattern when there is one, the
  listing answers 200 with the number of all books that match, the page number, the
  ceiling of that number divided by the limit as the number of pages, and the books of
  the page: \<open>limit\<close> of them after the first \<open>(page - 1) * limit\<close>. A page past the last
  one is empty, with the same totals.
\<close>

theorem getBooks_pagination:
  assumes "page = (case q_page q of None \<Rightarrow> 1 | Some p \<Rightarrow> p)"
      and "limit = (case q_limit q of None \<Rightarrow> 10 | Some l \<Rightarrow> l)"
      and "1 \<le> page" and "1 \<le> limit"
      and "search_matcher rx q = Some m"
      and "found = filter (matches_query m q) (books st)"
  shows "getBooks rx st q
           = ((200, PageBody (length found) page
                      (Some \<lceil>real (length found) / real_of_int limit\<rceil>)
                      (take (nat limit) (drop (nat ((page - 1) * limit)) found))), st)
     \<and> (\<lceil>real (length found) / real_of_int limit\<rceil> < page
          \<longrightarrow> take (nat limit) (drop (nat ((page - 1) * limit)) found) = [])"
proof -
  have skip: "0 \<le> (page - 1) * limit"
    using assms(3,4) by simp
  have 1: "getBooks rx st q
           = ((200, PageBody (length found) page
                      (Some \<lceil>real (length found) / real_of_int limit\<rceil>)
                      (take (nat limit) (drop (nat ((page - 1) * limit)) found))), st)"
  proof -
    have p: "nullish (q_page q) 1 = page" and l: "nullish (q_limit q) 10 = limit"
      using assms(1,2) by (simp_all add: nullish_def)
    have "cursor_limit limit xs = take (nat limit) xs" for xs :: "book list"
      using assms(4) by (simp add: cursor_limit_def)
    moreover have "totalPages n limit = Some \<lceil>real n / real_of_int limit\<rceil>" for n
      using assms(4) by (simp add: totalPages_def)
    ultimately show ?thesis
      using skip assms(6) unfolding getBooks_def p l assms(5) Let_def by simp
  qed
  have 2: "take (nat limit) (drop (nat ((page - 1) * limit)) found) = []"
    if beyond: "\<lceil>real (length found) / real_of_int limit\<rceil> < page"
  proof -
    from beyond have "\<lceil>real (length found) / real_of_int limit\<rceil> \<le> page - 1"
      by simp
    then have "real (length found) / real_of_int limit \<le> real_of_int (page - 1)"
      by (simp only: ceiling_le_iff)
    then have "real (length found) \<le> real_of_int (page - 1) * real_of_int limit"
      using assms(4) by (simp add: pos_divide_le_eq)
    then have "real_of_int (int (length found)) \<le> real_of_int ((page - 1) * limit)"
      by simp
    then have "int (length found) \<le> (page - 1) * limit"
      by (simp only: of_int_le_iff)
    then have "length found \<le> nat ((page - 1) * limit)"
      by simp
    then show ?thesis by simp
  qed
  from 1 2 show ?thesis by blast
qed

theorem getBooks_pagination_witness:
  "search_matcher no_match (page_query 2 2) = Some (\<lambda>s. True)
   \<and> getBooks no_match three_books (page_query 2 2)
     = ((200, PageBody 3 2 (Some 2) [book_X\<lparr>book_id := 2, isbn := ''3''\<rparr>]), three_books)
   \<and> getBooks no_match three_books (page_query 3 2)
     = ((200, PageBody 3 3 (Some 2) []), three_books)"
proof -
  have matcher: "search_matcher no_match (page_query p 2) = Some (\<lambda>s. True)" for p
    by (simp add: search_matcher_def page_query_def truthy_str_def)
  have found: "books three_books
               = filter (matches_query (\<lambda>s. True) (page_query p 2)) (books three_books)" for p
    by (simp add: matches_query_def page_query_def truthy_str_def)
  have page: "p = (case q_page (page_query p 2) of None \<Rightarrow> 1 | Some p \<Rightarrow> p)" for p
    by (simp add: page_query_def)
  have limit: "2 = (case q_limit (page_query p 2) of None \<Rightarrow> 10 | Some l \<Rightarrow> l)" for p
    by (simp add: page_query_def)
  have all: "books three_books = [book_X, book_X\<lparr>book_id := 1, isbn := ''2''\<rparr>,
                                  book_X\<lparr>book_id := 2, isbn := ''3''\<rparr>]"
    by (simp add: three_books_def)
  have "getBooks no_match three_books (page_query 2 2)
     = ((200, PageBody 3 2 (Some 2) [book_X\<lparr>book_id := 2, isbn := ''3''\<rparr>]), three_books)"
    using getBooks_pagination [OF page limit _ _ matcher found, of 2]
    by (simp add: all)
  moreover have "getBooks no_match three_books (page_query 3 2)
     = ((200, PageBody 3 3 (Some 2) []), three_books)"
    using getBooks_pagination [OF page limit _ _ matcher found, of 3]
    by (simp add: all)
  ultimately show ?thesis using matcher [of 2] by simp
qed

section \<open>Borrow, then return\<close>

text \<open>
  C9. After a successful Borrow of a book whose available copies are a safe integer (the
  range in which the counter's \<^verbatim>\<open>- 1\<close> and \<^verbatim>\<open>+ 1\<close> are the integers'), a Return of the same
  book by the same user succeeds and leaves the book with the available copies it had
  before the Borrow, Available, and with no borrower, no \<^verbatim>\<open>borrowedAt\<close> and no \<^verbatim>\<open>dueDate\<close>;
  its other fields are as before the Borrow.
\<close>

theorem borrow_then_return:
  assumes "borrowBook st uid i now now' = ((200, bd), st1)"
      and "findById st i = Inr (Some book)"
      and "safe_integer (availableCopies book)"
  shows "\<exists>bd' st2 book2.
           returnBook st1 uid i t = ((200, bd'), st2)
         \<and> findById st2 i = Inr (Some book2)
         \<and> availableCopies book2 = availableCopies book
         \<and> status book2 = Available \<and> borrower book2 = None
         \<and> borrowedAt book2 = None \<and> dueDate book2 = None
         \<and> book2 = book\<lparr>borrower := None, borrowedAt := None, dueDate := None\<rparr>"
proof -
  from borrowBook_success [OF assms(1)] assms(2) have
    free: "status book \<noteq> Borrowed" and
    found1: "findById st1 i
               = Inr (Some (book\<lparr>status := Borrowed, borrower := Some uid,
                                  borrowedAt := Some now, dueDate := Some (now' + loanPeriod),
                                  availableCopies := availableCopies book - 1\<rparr>))"
    by auto
  let ?book1 = "book\<lparr>status := Borrowed, borrower := Some uid,
                      borrowedAt := Some now, dueDate := Some (now' + loanPeriod),
                      availableCopies := availableCopies book - 1\<rparr>"
  let ?book2 = "?book1\<lparr>status := Available, borrower := None, borrowedAt := None,
                        dueDate := None, availableCopies := availableCopies ?book1 + 1\<rparr>"
  define st2 where "st2 = snd (returnBook st1 uid i t)"
  define book2 where "book2 = ?book2"
  have mine: "borrower ?book1 = Some uid" by simp
  from free have avail: "status book = Available" by (cases "status book") simp_all
  have returned: "returnBook st1 uid i t
          = ((200, ReturnedBody ''Book returned successfully''
                     (fine_message (late_fine (dueDate ?book1) t))), st2)"
    unfolding st2_def by (simp add: returnBook_found [OF found1 mine])
  have found2: "findById st2 i = Inr (Some book2)"
    unfolding st2_def book2_def using found1 mine by (rule returnBook_found_book)
  have fields: "availableCopies book2 = availableCopies book" "status book2 = Available"
      "borrower book2 = None" "borrowedAt book2 = None" "dueDate book2 = None"
      "book2 = book\<lparr>borrower := None, borrowedAt := None, dueDate := None\<rparr>"
    using avail by (simp_all add: book2_def)
  from returned found2 fields show ?thesis by blast
qed

theorem borrow_then_return_witness:
  "borrowBook (run [Add req_X None]) 7 (ObjectId 0) 1000 1000
     = ((200, BorrowedBody ''Book borrowed successfully'' ''X'' 1000 604801000), store_X)
   \<and> findById (run [Add req_X None]) (ObjectId 0) = Inr (Some book_X)
   \<and> safe_integer (availableCopies book_X)
   \<and> availableCopies book_X = 2
   \<and> (\<exists>bd' st2. returnBook store_X 7 (ObjectId 0) 2000 = ((200, bd'), st2)
         \<and> findById st2 (ObjectId 0) = Inr (Some book_X))"
proof -
  have before: "findById (run [Add req_X None]) (ObjectId 0) = Inr (Some book_X)"
    unfolding run_add_X by (simp add: book_X_def new_book_def)
  have two: "availableCopies book_X = 2"
    by (simp add: book_X_def new_book_def)
  have safe: "safe_integer (availableCopies book_X)"
    by (simp add: two safe_integer_def)
  have same: "book_X\<lparr>borrower := None, borrowedAt := None, dueDate := None\<rparr> = book_X"
    by (simp add: book_X_def new_book_def)
  from borrow_then_return [OF borrow_X before safe, of 2000]
  have "\<exists>bd' st2. returnBook store_X 7 (ObjectId 0) 2000 = ((200, bd'), st2)
         \<and> findById st2 (ObjectId 0) = Inr (Some book_X)"
    unfolding same by blast
  with borrow_X before safe two show ?thesis by simp
qed

section \<open>Malformed identifiers\<close>

text \<open>
  C10. Only \<^verbatim>\<open>getBookById\<close> checks the id before it queries the store: on a malformed id it
  answers 400 (InvalidIdentifier), while Update, Delete, Borrow and Return pass the id to
  \<^verbatim>\<open>findById\<close> and answer 500 with the cast failure (StoreError), neither 400 nor 404, and
  leave the store as it was.
\<close>

theorem malformed_id_is_store_error:
  assumes "\<not> isValid i"
  shows "getBookById st i = (InvalidIdentifier, st)
     \<and> updateBook st i b file = (StoreError CastError, st)
     \<and> deleteBook st i = (StoreError CastError, st)
     \<and> borrowBook st uid i now now' = (StoreError CastError, st)
     \<and> returnBook st uid i now = (StoreError CastError, st)
     \<and> fst (StoreError CastError) = 500
     \<and> fst InvalidIdentifier = 400 \<and> fst NotFound = 404"
  using assms
  by (cases i) (simp_all add: getBookById_def updateBook_def deleteBook_def borrowBook_def
      returnBook_def StoreError_def InvalidIdentifier_def NotFound_def)

theorem malformed_id_is_store_error_witness:
  "\<not> isValid (Malformed ''abc'')
   \<and> getBookById store_X (Malformed ''abc'') = ((400, Msg ''Invalid Book ID''), store_X)
   \<and> updateBook store_X (Malformed ''abc'') req_X None = ((500, ErrMsg CastError), store_X)
   \<and> deleteBook store_X (Malformed ''abc'') = ((500, ErrMsg CastError), store_X)
   \<and> borrowBook store_X 7 (Malformed ''abc'') 0 0 = ((500, ErrMsg CastError), store_X)
   \<and> returnBook store_X 7 (Malformed ''abc'') 0 = ((500, ErrMsg CastError), store_X)"
  using malformed_id_is_store_error [of "Malformed ''abc''" store_X req_X None 7 0 0]
  by (simp add: StoreError_def InvalidIdentifier_def)

end
